theory Spec2Isabelle
  imports Main "HOL-Library.Sublist"
begin

section \<open>Python values\<close>

text \<open>
  A Python \<open>str\<close> is a sequence of Unicode code points, and it may hold a lone
  surrogate (U+D800 .. U+DFFF): \<open>json.loads\<close> produces one from the escape
  \<^verbatim>\<open>"\ud800"\<close>. Such a string cannot be encoded as UTF-8, so \<open>print\<close> raises
  \<open>UnicodeEncodeError\<close> on it. Strings that come from outside the program are therefore
  lists of code points (\<open>pystr\<close>). The program's own literals and the messages of
  library exceptions that the program prints are HOL strings, embedded by \<open>lit\<close>;
  they never hold a surrogate.
\<close>

type_synonym pystr = "nat list"

definition lit :: "string \<Rightarrow> pystr" where
  "lit s = map of_char s"

definition surrogate :: "nat \<Rightarrow> bool" where
  "surrogate c = (55296 \<le> c \<and> c \<le> 57343)"

definition encodable :: "pystr \<Rightarrow> bool" where
  "encodable s = list_all (\<lambda>c. \<not> surrogate c) s"

text \<open>The values \<open>json.loads\<close> returns and \<open>json.dump\<close> accepts. A float is kept as
  its \<open>repr\<close>; a \<open>dict\<close> as its items in insertion order.\<close>

datatype json =
    JNull
  | JBool bool
  | JInt int
  | JFloat string
  | JStr pystr
  | JArr "json list"
  | JObj "(pystr \<times> json) list"

fun type_name :: "json \<Rightarrow> string" where
  "type_name JNull = ''NoneType''"
| "type_name (JBool _) = ''bool''"
| "type_name (JInt _) = ''int''"
| "type_name (JFloat _) = ''float''"
| "type_name (JStr _) = ''str''"
| "type_name (JArr _) = ''list''"
| "type_name (JObj _) = ''dict''"

text \<open>\<open>repr\<close> of an ASCII string without quotes: the string in single quotes.\<close>

definition quoted :: "string \<Rightarrow> string" where
  "quoted s = CHR 0x27 # s @ [CHR 0x27]"

text \<open>
  An exception is modelled by its message \<open>str(e)\<close>: every handler of the program is
  \<open>except Exception as e\<close> and uses nothing of \<open>e\<close> but that text. A computation that
  may raise returns \<open>Inl\<close> of the message, or \<open>Inr\<close> of its result.

  \<open>subscript v key\<close> is \<open>v[key]\<close> for a string literal \<open>key\<close>: a lookup in a dict
  (\<open>KeyError\<close> when the key is missing, whose text is the \<open>repr\<close> of the key), and a
  \<open>TypeError\<close> on every other value (texts of CPython 3.11).
\<close>

fun subscript :: "json \<Rightarrow> string \<Rightarrow> string + json" where
  "subscript (JObj kvs) key =
     (case map_of kvs (lit key) of
        Some v \<Rightarrow> Inr v
      | None \<Rightarrow> Inl (quoted key))"
| "subscript (JArr _) key = Inl ''list indices must be integers or slices, not str''"
| "subscript (JStr _) key = Inl (''string indices must be integers, not '' @ quoted ''str'')"
| "subscript v key = Inl (quoted (type_name v) @ '' object is not subscriptable'')"

text \<open>
  A text is modelled by what \<open>json.loads\<close> makes of it: \<open>Document v\<close> parses to the
  value \<open>v\<close>, \<open>Malformed m\<close> makes the parser raise an exception with message \<open>m\<close>.
  \<open>json_dumps\<close> is the text \<open>json.dump\<close> writes; that it parses back to the value
  written is the library's contract.
\<close>

datatype pytext = Malformed string | Document json

fun json_loads :: "pytext \<Rightarrow> string + json" where
  "json_loads (Malformed m) = Inl m"
| "json_loads (Document v) = Inr v"

definition json_dumps :: "json \<Rightarrow> pytext" where
  "json_dumps v = Document v"

section \<open>The world outside the program\<close>

text \<open>
  \<open>http_outcome\<close>: what lines 28 to 30 do for one request. \<open>HttpError m\<close>:
  \<open>httpx.get\<close>, \<open>raise_for_status\<close> or \<open>response.json()\<close> raised an exception with
  message \<open>m\<close> (network error, timeout, non-2xx status, malformed body); \<open>Body data\<close>:
  \<open>response.json()\<close> returned \<open>data\<close>.

  \<open>completion\<close>: what lines 39 to 54 do when an API key is set. \<open>ApiError m\<close>: the
  constructor or the call raised an exception with message \<open>m\<close> (authentication, rate
  limit, network); \<open>Choices cs\<close>: the call returned a response whose \<open>choices\<close> have
  the \<open>message.content\<close> values \<open>cs\<close> (\<open>None\<close>, or a text, taken after \<open>strip()\<close>).
\<close>

datatype http_outcome = HttpError string | Body json

datatype completion = ApiError pystr | Choices "pytext option list"

text \<open>
  The environment of one request. The calls of a kind are numbered from 0 in the order the
  program makes them.
  \<^item> \<open>http_get i\<close>: the outcome of GET number \<open>i\<close> of \<^verbatim>\<open>https://httpbin.org/uuid\<close>;
  \<^item> \<open>api_key\<close>: \<open>os.getenv("OPENAI_API_KEY")\<close>;
  \<open>chat_create k prompt\<close>: the outcome of chat completion call number \<open>k\<close>;
  \<^item> \<open>utcnow k\<close>: \<open>datetime.utcnow().isoformat()\<close> at clock reading number \<open>k\<close>;
  \<^item> \<open>py_repr v\<close>: \<open>repr(v)\<close> of a value that is not a \<open>str\<close> (it escapes surrogates);
  \<open>codec_error s\<close>: the message of the \<open>UnicodeEncodeError\<close> raised when a text
  holding \<open>s\<close> is printed;
  \<^item> \<open>open_read\<close>, \<open>open_write\<close>: the \<open>OSError\<close> message when the store file cannot
  be opened for reading, for writing; \<open>dump_fault\<close>: the message when writing fails
  after the file was truncated, and the text left in the file.
\<close>

record env =
  http_get :: "nat \<Rightarrow> http_outcome"
  api_key :: "pystr option"
  chat_create :: "nat \<Rightarrow> pystr \<Rightarrow> completion"
  utcnow :: "nat \<Rightarrow> string"
  py_repr :: "json \<Rightarrow> string"
  codec_error :: "pystr \<Rightarrow> string"
  open_read :: "string option"
  open_write :: "string option"
  dump_fault :: "(string \<times> pytext) option"

text \<open>
  Every \<open>print\<close> of the program is one constructor of \<open>line\<close>, with the values its
  f-string interpolates (the source line in brackets).
\<close>

datatype line =
    LogFetchError nat string         \<comment> \<open>[33] \<open>Error fetching UUID {i+1}: {e}\<close>\<close>
  | LogStorageError string           \<comment> \<open>[79] \<open>Storage error: {e}\<close>\<close>
  | LogNotification pystr nat nat    \<comment> \<open>[92] the notification message\<close>
  | LogNotificationError string      \<comment> \<open>[95] \<open>Notification error: {e}\<close>\<close>
  | LogStarted                       \<comment> \<open>[105]\<close>
  | LogStage1                        \<comment> \<open>[108]\<close>
  | LogFetched nat                   \<comment> \<open>[113] \<open>Fetched {len(uuids)} UUIDs\<close>\<close>
  | LogStage2                        \<comment> \<open>[116]\<close>
  | LogAnalyzing nat nat             \<comment> \<open>[119] \<open>Analyzing UUID {idx}/{len(uuids)}...\<close>\<close>
  | LogSentiment json                \<comment> \<open>[130] \<open>Sentiment: {sentiment}\<close>\<close>
  | LogError string                  \<comment> \<open>[134] \<open>Error: {e}\<close>\<close>
  | LogAnalyzed nat                  \<comment> \<open>[136] \<open>Analyzed {len(results)} items\<close>\<close>
  | LogStage3                        \<comment> \<open>[139]\<close>
  | LogStorage bool                  \<comment> \<open>[143] \<open>Storage successful\<close> or \<open>failed\<close>\<close>
  | LogStage4                        \<comment> \<open>[146]\<close>
  | LogNotified pystr                \<comment> \<open>[148] \<open>Notification sent to {email}\<close>\<close>
  | LogComplete                      \<comment> \<open>[150]\<close>

text \<open>The state a request changes: the standard output, the store file
  \<^verbatim>\<open>pipeline_results.json\<close> (\<open>None\<close>: it does not exist), and how many calls of each
  kind were made.\<close>

record state =
  stdout :: "line list"
  store_file :: "pytext option"
  http_calls :: nat
  chat_calls :: nat
  clock_reads :: nat

section \<open>Printing\<close>

text \<open>
  Standard output is a UTF-8 stream with the error handler \<open>strict\<close> (the program
  prints emoji, so it runs on nothing less): \<open>print\<close> raises \<open>UnicodeEncodeError\<close>
  exactly when the text holds a surrogate. The program reckons with a \<open>print\<close> that
  raises: \<open>send_notification\<close> has its only \<open>print\<close> in a \<open>try\<close>. Other failures of
  the stream (a closed pipe) are not modelled.

  A line made of literals, integers, booleans and library messages always prints
  (\<open>emit\<close>). A line that interpolates a string from outside may raise
  (\<open>print_line\<close>), and \<open>outside_text\<close> is that string; the \<open>str\<close> of a value that is
  not itself a string is its \<open>repr\<close>, which escapes surrogates.
\<close>

fun outside_text :: "line \<Rightarrow> pystr" where
  "outside_text (LogSentiment (JStr s)) = s"
| "outside_text (LogNotification email _ _) = email"
| "outside_text (LogNotified email) = email"
| "outside_text _ = []"

definition emit :: "line \<Rightarrow> state \<Rightarrow> state" where
  "emit l st = st\<lparr>stdout := stdout st @ [l]\<rparr>"

definition print_line :: "env \<Rightarrow> line \<Rightarrow> state \<Rightarrow> string + state" where
  "print_line e l st =
     (if encodable (outside_text l) then Inr (emit l st)
      else Inl (codec_error e (outside_text l)))"

definition py_str :: "env \<Rightarrow> json \<Rightarrow> pystr" where
  "py_str e v = (case v of JStr s \<Rightarrow> s | _ \<Rightarrow> lit (py_repr e v))"

definition read_clock :: "env \<Rightarrow> state \<Rightarrow> string \<times> state" where
  "read_clock e st =
     (utcnow e (clock_reads st) @ ''Z'', st\<lparr>clock_reads := Suc (clock_reads st)\<rparr>)"

section \<open>Component functions\<close>

subsection \<open>\<open>fetch_uuids\<close> (lines 23 to 34)\<close>

text \<open>The body of the \<open>try\<close>, given the outcome of the request: \<open>data["uuid"]\<close>.\<close>

definition fetch_one :: "http_outcome \<Rightarrow> string + json" where
  "fetch_one r = (case r of HttpError m \<Rightarrow> Inl m | Body data \<Rightarrow> subscript data ''uuid'')"

fun fetch_loop :: "env \<Rightarrow> nat list \<Rightarrow> json list \<times> state \<Rightarrow> json list \<times> state" where
  "fetch_loop e [] (uuids, st) = (uuids, st)"
| "fetch_loop e (i # rest) (uuids, st) =
     (let st1 = st\<lparr>http_calls := Suc (http_calls st)\<rparr> in
      case fetch_one (http_get e (http_calls st)) of
        Inr u \<Rightarrow> fetch_loop e rest (uuids @ [u], st1)
      | Inl m \<Rightarrow> fetch_loop e rest (uuids, emit (LogFetchError (i + 1) m) st1))"

definition fetch_uuids :: "env \<Rightarrow> int \<Rightarrow> state \<Rightarrow> json list \<times> state" where
  "fetch_uuids e count st = fetch_loop e [0..<nat count] ([], st)"

subsection \<open>\<open>analyze_with_ai\<close> (lines 36 to 59)\<close>

text \<open>The message of \<open>OpenAI(api_key=None)\<close> when the environment variable is not set
  (openai 1.x raises in the constructor).\<close>

definition missing_api_key :: string where
  "missing_api_key =
     ''The api_key client option must be set either by passing api_key to the client '' @
     ''or by setting the OPENAI_API_KEY environment variable''"

definition prompt :: "env \<Rightarrow> json \<Rightarrow> pystr" where
  "prompt e txt =
     lit (''Analyze this UUID and respond with ONLY a JSON object:'' @ [CHR 0x0A] @
          ''        '' @ [CHR 0x0A] @ ''UUID: '') @
     py_str e txt @
     lit ([CHR 0x0A, CHR 0x0A] @ ''Format:'' @ [CHR 0x0A] @
          ''{'' @ [CHR 0x22] @ ''analysis'' @ [CHR 0x22] @ '': '' @
          [CHR 0x22] @ ''2-3 sentence analysis'' @ [CHR 0x22] @ '', '' @
          [CHR 0x22] @ ''sentiment'' @ [CHR 0x22] @ '': '' @
          [CHR 0x22] @ ''optimistic/pessimistic/balanced'' @ [CHR 0x22] @ ''}'')"

text \<open>Lines 55 and 56: parse the text, then read the two keys.\<close>

definition parse_reply :: "pytext \<Rightarrow> string + json \<times> json" where
  "parse_reply t =
     (case json_loads t of
        Inl m \<Rightarrow> Inl m
      | Inr parsed \<Rightarrow>
          (case subscript parsed ''analysis'' of
             Inl m \<Rightarrow> Inl m
           | Inr a \<Rightarrow>
               (case subscript parsed ''sentiment'' of
                  Inl m \<Rightarrow> Inl m
                | Inr s \<Rightarrow> Inr (a, s))))"

text \<open>Line 54 and on: \<open>response.choices[0].message.content.strip()\<close> raises
  \<open>IndexError\<close> on no choice and \<open>AttributeError\<close> on a content that is \<open>None\<close>.\<close>

fun read_completion :: "completion \<Rightarrow> pystr + json \<times> json" where
  "read_completion (ApiError m) = Inl m"
| "read_completion (Choices []) = Inl (lit ''list index out of range'')"
| "read_completion (Choices (None # _)) =
     Inl (lit (quoted ''NoneType'' @ '' object has no attribute '' @ quoted ''strip''))"
| "read_completion (Choices (Some t # _)) =
     (case parse_reply t of Inl m \<Rightarrow> Inl (lit m) | Inr p \<Rightarrow> Inr p)"

text \<open>The body of the \<open>try\<close>.\<close>

definition classify :: "env \<Rightarrow> json \<Rightarrow> state \<Rightarrow> (pystr + json \<times> json) \<times> state" where
  "classify e txt st =
     (case api_key e of
        None \<Rightarrow> (Inl (lit missing_api_key), st)
      | Some key \<Rightarrow>
          (read_completion (chat_create e (chat_calls st) (prompt e txt)),
           st\<lparr>chat_calls := Suc (chat_calls st)\<rparr>))"

definition analyze_with_ai :: "env \<Rightarrow> json \<Rightarrow> state \<Rightarrow> (json \<times> json) \<times> state" where
  "analyze_with_ai e txt st =
     (case classify e txt st of
        (Inr p, st') \<Rightarrow> (p, st')
      | (Inl m, st') \<Rightarrow>
          ((JStr (lit ''Analysis unavailable: '' @ m), JStr (lit ''neutral'')), st'))"

subsection \<open>\<open>store_results\<close> (lines 61 to 80)\<close>

text \<open>Lines 66 to 70: the existing data, \<open>[]\<close> when the file does not exist.\<close>

definition load_existing :: "env \<Rightarrow> state \<Rightarrow> string + json" where
  "load_existing e st =
     (case store_file st of
        None \<Rightarrow> Inr (JArr [])
      | Some t \<Rightarrow>
          (case open_read e of
             Some m \<Rightarrow> Inl m
           | None \<Rightarrow> json_loads t))"

text \<open>Line 72: \<open>existing_data.extend(results)\<close>; only a list has \<open>extend\<close>.\<close>

fun extend :: "json \<Rightarrow> json list \<Rightarrow> string + json" where
  "extend (JArr xs) results = Inr (JArr (xs @ results))"
| "extend v results =
     Inl (quoted (type_name v) @ '' object has no attribute '' @ quoted ''extend'')"

text \<open>Lines 74 and 75: opening for writing truncates the file; the message when it
  raised, and the state after.\<close>

definition write_file :: "env \<Rightarrow> json \<Rightarrow> state \<Rightarrow> string option \<times> state" where
  "write_file e v st =
     (case open_write e of
        Some m \<Rightarrow> (Some m, st)
      | None \<Rightarrow>
          (case dump_fault e of
             Some (m, left) \<Rightarrow> (Some m, st\<lparr>store_file := Some left\<rparr>)
           | None \<Rightarrow> (None, st\<lparr>store_file := Some (json_dumps v)\<rparr>)))"

definition store_results :: "env \<Rightarrow> json list \<Rightarrow> state \<Rightarrow> bool \<times> state" where
  "store_results e results st =
     (case load_existing e st of
        Inl m \<Rightarrow> (False, emit (LogStorageError m) st)
      | Inr existing_data \<Rightarrow>
          (case extend existing_data results of
             Inl m \<Rightarrow> (False, emit (LogStorageError m) st)
           | Inr data \<Rightarrow>
               (case write_file e data st of
                  (Some m, st') \<Rightarrow> (False, emit (LogStorageError m) st')
                | (None, st') \<Rightarrow> (True, st'))))"

subsection \<open>\<open>send_notification\<close> (lines 82 to 96)\<close>

definition send_notification :: "env \<Rightarrow> pystr \<Rightarrow> nat \<Rightarrow> nat \<Rightarrow> state \<Rightarrow> bool \<times> state" where
  "send_notification e email success_count error_count st =
     (case print_line e (LogNotification email success_count error_count) st of
        Inr st' \<Rightarrow> (True, st')
      | Inl m \<Rightarrow> (False, emit (LogNotificationError m) st))"

section \<open>The pipeline (lines 100 to 157)\<close>

text \<open>The dict built at lines 122 to 128, and the dict a response is.
  \<open>processedAt = None\<close>: the response has no such key.\<close>

record analysis_result =
  original :: json
  analysis :: json
  sentiment :: json
  stored :: bool
  timestamp :: string

record response =
  items :: "analysis_result list"
  notificationSent :: bool
  processedAt :: "string option"
  errors :: "pystr list"

definition result_json :: "analysis_result \<Rightarrow> json" where
  "result_json r =
     JObj [(lit ''original'', original r),
           (lit ''analysis'', analysis r),
           (lit ''sentiment'', sentiment r),
           (lit ''stored'', JBool (stored r)),
           (lit ''timestamp'', JStr (lit (timestamp r)))]"

text \<open>
  One round of the loop of Stage 2 (lines 118 to 134), for the identifier \<open>uuid\<close> at
  position \<open>idx\<close> of \<open>n\<close>. In the \<open>try\<close>, line 119 prints integers, \<open>analyze_with_ai\<close>
  returns, and lines 122 to 129 build and append the result: the one statement that can
  raise is the \<open>print\<close> of line 130, after the append. The handler (lines 133 and 134)
  appends the error and prints the message.
\<close>

fun process_uuid ::
  "env \<Rightarrow> nat \<Rightarrow> nat \<Rightarrow> json \<Rightarrow> analysis_result list \<times> pystr list \<times> state \<Rightarrow>
   analysis_result list \<times> pystr list \<times> state" where
  "process_uuid e n idx uuid (results, errs, st) =
     (let st1 = emit (LogAnalyzing idx n) st;
          ((a, s), st2) = analyze_with_ai e uuid st1;
          (now, st3) = read_clock e st2;
          result = \<lparr>original = uuid, analysis = a, sentiment = s, stored = False,
                    timestamp = now\<rparr>;
          results1 = results @ [result]
      in case print_line e (LogSentiment s) st3 of
           Inr st4 \<Rightarrow> (results1, errs, st4)
         | Inl m \<Rightarrow>
             (results1,
              errs @ [lit ''Failed to process UUID '' @ py_str e uuid @ lit '': '' @ lit m],
              emit (LogError m) st3))"

text \<open>\<open>for idx, uuid in enumerate(uuids, 1)\<close>.\<close>

fun stage2 ::
  "env \<Rightarrow> nat \<Rightarrow> nat \<Rightarrow> json list \<Rightarrow> analysis_result list \<times> pystr list \<times> state \<Rightarrow>
   analysis_result list \<times> pystr list \<times> state" where
  "stage2 e n idx [] acc = acc"
| "stage2 e n idx (uuid # rest) acc = stage2 e n (idx + 1) rest (process_uuid e n idx uuid acc)"

text \<open>\<open>run_pipeline\<close> returns a response, or raises: the \<open>print\<close> of line 148 is in no
  \<open>try\<close>.\<close>

definition run_pipeline :: "env \<Rightarrow> pystr \<Rightarrow> state \<Rightarrow> (string + response) \<times> state" where
  "run_pipeline e email st0 =
     (let st1 = emit LogStage1 (emit LogStarted st0);
          (uuids, st2) = fetch_uuids e 3 st1
      in if uuids = [] then
           (Inr \<lparr>items = [], notificationSent = False, processedAt = None,
                 errors = [lit ''Failed to fetch any UUIDs'']\<rparr>, st2)
         else
           let st3 = emit LogStage2 (emit (LogFetched (length uuids)) st2);
               (results, errs, st4) = stage2 e (length uuids) 1 uuids ([], [], st3);
               st5 = emit LogStage3 (emit (LogAnalyzed (length results)) st4);
               (storage_success, st6) = store_results e (map result_json results) st5;
               results1 = map (\<lambda>r. r\<lparr>stored := storage_success\<rparr>) results;
               st7 = emit LogStage4 (emit (LogStorage storage_success) st6);
               (notification_sent, st8) =
                 send_notification e email (length results1) (length errs) st7
           in case print_line e (LogNotified email) st8 of
                Inl m \<Rightarrow> (Inl m, st8)
              | Inr st9 \<Rightarrow>
                  (let (now, st10) = read_clock e (emit LogComplete st9)
                   in (Inr \<lparr>items = results1, notificationSent = notification_sent,
                             processedAt = Some now, errors = errs\<rparr>, st10)))"

section \<open>The endpoint (lines 161 to 175)\<close>

record request =
  email :: pystr
  source :: pystr

text \<open>What the handler does: it returns a body, raises \<open>HTTPException\<close> with a status
  and a detail, or lets another exception escape.\<close>

datatype outcome = Returned response | HTTPException nat string | Unhandled string

text \<open>
  The framework renders a returned dict with
  \<^verbatim>\<open>json.dumps(content, ensure_ascii=False, allow_nan=False).encode("utf-8")\<close>.
  \<open>json.dumps\<close> raises \<open>ValueError\<close> on a float that is NaN or infinite (\<open>repr\<close>
  \<open>nan\<close>, \<open>inf\<close>, \<open>-inf\<close>), and \<open>encode\<close> raises \<open>UnicodeEncodeError\<close> on a string or
  a key that holds a surrogate. \<open>renders v\<close>: neither happens for the value \<open>v\<close>.
\<close>

definition finite_repr :: "string \<Rightarrow> bool" where
  "finite_repr r = (r \<noteq> ''nan'' \<and> r \<noteq> ''inf'' \<and> r \<noteq> ''-inf'')"

fun renders :: "json \<Rightarrow> bool"
  and renders_list :: "json list \<Rightarrow> bool"
  and renders_items :: "(pystr \<times> json) list \<Rightarrow> bool" where
  "renders JNull = True"
| "renders (JBool _) = True"
| "renders (JInt _) = True"
| "renders (JFloat r) = finite_repr r"
| "renders (JStr s) = encodable s"
| "renders (JArr vs) = renders_list vs"
| "renders (JObj kvs) = renders_items kvs"
| "renders_list [] = True"
| "renders_list (v # vs) = (renders v \<and> renders_list vs)"
| "renders_items [] = True"
| "renders_items ((k, v) # kvs) = (encodable k \<and> renders v \<and> renders_items kvs)"

text \<open>The dict \<open>run_pipeline\<close> returns, as the value that is rendered: the keys of lines
  112 and 152 to 157, with no \<open>processedAt\<close> on the abort path.\<close>

definition response_json :: "response \<Rightarrow> json" where
  "response_json r =
     JObj ([(lit ''items'', JArr (map result_json (items r))),
            (lit ''notificationSent'', JBool (notificationSent r))] @
           (case processedAt r of
              None \<Rightarrow> []
            | Some now \<Rightarrow> [(lit ''processedAt'', JStr (lit now))]) @
           [(lit ''errors'', JArr (map JStr (errors r)))])"

text \<open>\<open>status_code\<close> is the status of the answer: 200 for a returned body that renders
  (the route declares no other status), the status of the \<open>HTTPException\<close>, and 500 when
  the rendering or the handler raised any other exception.\<close>

fun status_code :: "outcome \<Rightarrow> nat" where
  "status_code (Returned r) = (if renders (response_json r) then 200 else 500)"
| "status_code (HTTPException code _) = code"
| "status_code (Unhandled _) = 500"

definition pipeline_endpoint :: "env \<Rightarrow> request \<Rightarrow> state \<Rightarrow> outcome \<times> state" where
  "pipeline_endpoint e req st =
     (if source req \<noteq> lit ''HTTPBin UUID'' then
        (HTTPException 400 (''Source must be '' @ quoted ''HTTPBin UUID''), st)
      else
        (case run_pipeline e (email req) st of
           (Inr result, st') \<Rightarrow> (Returned result, st')
         | (Inl m, st') \<Rightarrow> (Unhandled m, st')))"

section \<open>Reading the model\<close>

text \<open>\<open>fetched e i\<close>: the identifier that request number \<open>i\<close> yields, if it yields
  one.\<close>

definition fetched :: "env \<Rightarrow> nat \<Rightarrow> json option" where
  "fetched e i = (case fetch_one (http_get e i) of Inr u \<Rightarrow> Some u | Inl m \<Rightarrow> None)"

text \<open>\<open>new_item e uuid a s st2\<close>: the result lines 122 to 128 build for \<open>uuid\<close> from
  the pair \<open>(a, s)\<close> of \<open>analyze_with_ai\<close> and the clock reading of state \<open>st2\<close>.\<close>

definition new_item :: "env \<Rightarrow> json \<Rightarrow> json \<Rightarrow> json \<Rightarrow> state \<Rightarrow> analysis_result" where
  "new_item e uuid a s st2 =
     \<lparr>original = uuid, analysis = a, sentiment = s, stored = False,
      timestamp = utcnow e (clock_reads st2) @ ''Z''\<rparr>"

text \<open>A degraded result: the sentiment is \<open>neutral\<close> and the analysis is a string that
  starts with \<open>Analysis unavailable: \<close>.\<close>

definition degraded :: "analysis_result \<Rightarrow> bool" where
  "degraded r =
     (sentiment r = JStr (lit ''neutral'') \<and>
      (case analysis r of
         JStr s \<Rightarrow> prefix (lit ''Analysis unavailable: '') s
       | _ \<Rightarrow> False))"

subsection \<open>Example environments\<close>

text \<open>A fresh process with no store file, and a world in which every service answers:
  request \<open>i\<close> yields the identifier \<open>id-i\<close> and the classifier a well-formed reply.
  The others differ from it in one service. Every identifier of these worlds is a string,
  so \<open>py_repr\<close> is never consulted; \<open>codec_error\<close> is consulted in \<open>env_surrogate\<close>
  only.\<close>

definition initial :: state where
  "initial = \<lparr>stdout = [], store_file = None, http_calls = 0, chat_calls = 0, clock_reads = 0\<rparr>"

definition env_online :: env where
  "env_online =
     \<lparr>http_get = (\<lambda>i. Body (JObj [(lit ''uuid'',
         JStr (lit (if i = 0 then ''id-0'' else if i = 1 then ''id-1'' else ''id-2'')))])),
      api_key = Some (lit ''sk-test''),
      chat_create = (\<lambda>k p. Choices [Some (Document (JObj
         [(lit ''analysis'', JStr (lit ''A random identifier.'')),
          (lit ''sentiment'', JStr (lit ''balanced''))]))]),
      utcnow = (\<lambda>k. ''2024-01-01T00:00:0'' @
         (if k = 0 then ''0'' else if k = 1 then ''1'' else if k = 2 then ''2'' else ''3'')),
      py_repr = (\<lambda>v. ''<'' @ type_name v @ ''>''),
      codec_error = (\<lambda>s. ''surrogates not allowed''),
      open_read = None,
      open_write = None,
      dump_fault = None\<rparr>"

definition env_offline :: env where
  "env_offline = env_online\<lparr>http_get := (\<lambda>i. HttpError ''timed out'')\<rparr>"

definition env_flaky :: env where
  "env_flaky = env_online\<lparr>http_get :=
     (\<lambda>i. if i = 0 then HttpError ''timed out'' else http_get env_online i)\<rparr>"

definition env_no_key :: env where
  "env_no_key = env_online\<lparr>api_key := None\<rparr>"

definition env_malformed :: env where
  "env_malformed = env_online\<lparr>chat_create :=
     (\<lambda>k p. Choices [Some (Malformed ''Expecting value: line 1 column 1 (char 0)'')])\<rparr>"

definition env_no_sentiment :: env where
  "env_no_sentiment = env_online\<lparr>chat_create :=
     (\<lambda>k p. Choices [Some (Document (JObj [(lit ''analysis'', JStr (lit ''fine''))]))])\<rparr>"

text \<open>A store file that holds one record of an earlier run, a record to append, and a
  world in which the store file cannot be opened for writing.\<close>

definition old_record :: analysis_result where
  "old_record =
     \<lparr>original = JStr (lit ''id-9''), analysis = JStr (lit ''An earlier run.''),
      sentiment = JStr (lit ''optimistic''), stored = False,
      timestamp = ''2023-12-31T23:59:59Z''\<rparr>"

definition new_record :: analysis_result where
  "new_record =
     \<lparr>original = JStr (lit ''id-0''), analysis = JStr (lit ''A random identifier.''),
      sentiment = JStr (lit ''balanced''), stored = False,
      timestamp = ''2024-01-01T00:00:00Z''\<rparr>"

definition with_store :: state where
  "with_store = initial\<lparr>store_file := Some (Document (JArr [result_json old_record]))\<rparr>"

definition env_readonly :: env where
  "env_readonly = env_online\<lparr>open_write :=
     Some (''[Errno 13] Permission denied: '' @ quoted ''pipeline_results.json'')\<rparr>"

text \<open>A classifier that answers with a sentiment of its own, and one whose first answer
  is the text \<^verbatim>\<open>{"analysis": "fine", "sentiment": "\ud800"}\<close>, whose sentiment parses
  to a lone surrogate; \<open>codec_error\<close> is then the message CPython gives for the line.\<close>

definition env_happy :: env where
  "env_happy = env_online\<lparr>chat_create :=
     (\<lambda>k p. Choices [Some (Document (JObj
        [(lit ''analysis'', JStr (lit ''It looks cheerful.'')),
         (lit ''sentiment'', JStr (lit ''happy''))]))])\<rparr>"

definition env_surrogate :: env where
  "env_surrogate = env_online
     \<lparr>chat_create :=
        (\<lambda>k p. if k = 0
           then Choices [Some (Document (JObj
                  [(lit ''analysis'', JStr (lit ''fine'')),
                   (lit ''sentiment'', JStr [55296])]))]
           else chat_create env_online k p),
      codec_error :=
        (\<lambda>s. quoted ''utf-8'' @ '' codec can'' @ [CHR 0x27] @ ''t encode character '' @
              quoted ([CHR 0x5C] @ ''ud800'') @ '' in position 15: surrogates not allowed'')\<rparr>"

text \<open>A classifier whose answers are the text
  \<^verbatim>\<open>{"analysis": NaN, "sentiment": "balanced"}\<close> (\<open>json.loads\<close> reads \<open>NaN\<close> as the
  float).\<close>

definition env_nan :: env where
  "env_nan = env_online\<lparr>chat_create :=
     (\<lambda>k p. Choices [Some (Document (JObj
        [(lit ''analysis'', JFloat ''nan''),
         (lit ''sentiment'', JStr (lit ''balanced''))]))])\<rparr>"

section \<open>Properties of the component functions\<close>

lemma emit_fields [simp]:
  "stdout (emit l st) = stdout st @ [l]"
  "store_file (emit l st) = store_file st"
  "http_calls (emit l st) = http_calls st"
  "chat_calls (emit l st) = chat_calls st"
  "clock_reads (emit l st) = clock_reads st"
  by (simp_all add: emit_def)

lemma upt_from: "[k..<k + Suc n] = k # [Suc k..<Suc k + n]"
  by (subst upt_conv_Cons) simp_all

lemma fetch_loop_result:
  "fst (fetch_loop e ns (uuids, st)) =
     uuids @ List.map_filter (fetched e) [http_calls st..<http_calls st + length ns]"
proof (induction ns arbitrary: uuids st)
  case Nil
  then show ?case by simp
next
  case (Cons i rest)
  have range: "[http_calls st..<http_calls st + length (i # rest)] =
      http_calls st # [Suc (http_calls st)..<Suc (http_calls st) + length rest]"
    using upt_from[of "http_calls st" "length rest"] by simp
  show ?case unfolding range
    by (cases "fetch_one (http_get e (http_calls st))")
      (simp_all add: Cons.IH fetched_def Let_def)
qed

lemma fetch_loop_state:
  "store_file (snd (fetch_loop e ns (uuids, st))) = store_file st \<and>
   chat_calls (snd (fetch_loop e ns (uuids, st))) = chat_calls st \<and>
   clock_reads (snd (fetch_loop e ns (uuids, st))) = clock_reads st \<and>
   http_calls (snd (fetch_loop e ns (uuids, st))) = http_calls st + length ns"
proof (induction ns arbitrary: uuids st)
  case Nil
  then show ?case by simp
next
  case (Cons i rest)
  show ?case
    by (cases "fetch_one (http_get e (http_calls st))") (simp_all add: Cons.IH Let_def)
qed

lemma fetch_loop_stdout:
  "\<exists>ls. stdout (snd (fetch_loop e ns (uuids, st))) = stdout st @ ls \<and>
        list_all (\<lambda>l. \<exists>i m. l = LogFetchError i m) ls"
proof (induction ns arbitrary: uuids st)
  case Nil
  then show ?case by simp
next
  case (Cons i rest)
  show ?case
  proof (cases "fetch_one (http_get e (http_calls st))")
    case (Inl m)
    let ?st1 = "emit (LogFetchError (i + 1) m) (st\<lparr>http_calls := Suc (http_calls st)\<rparr>)"
    obtain ls where
      "stdout (snd (fetch_loop e rest (uuids, ?st1))) = stdout ?st1 @ ls" and
      "list_all (\<lambda>l. \<exists>i m. l = LogFetchError i m) ls"
      using Cons.IH by blast
    then show ?thesis using Inl
      by (intro exI[of _ "LogFetchError (i + 1) m # ls"]) (simp add: Let_def)
  next
    case (Inr u)
    then show ?thesis
      using Cons.IH[of "uuids @ [u]" "st\<lparr>http_calls := Suc (http_calls st)\<rparr>"]
      by (simp add: Let_def)
  qed
qed

lemma fetch_uuids_result:
  "fst (fetch_uuids e count st) =
     List.map_filter (fetched e) [http_calls st..<http_calls st + nat count]"
  by (simp add: fetch_uuids_def fetch_loop_result)

lemma fetch_uuids_emit:
  "fst (fetch_uuids e count (emit l st)) = fst (fetch_uuids e count st)"
  by (simp add: fetch_uuids_result)

lemma map_filter_length: "length (List.map_filter f xs) \<le> length xs"
  by (induction xs) (simp_all split: option.splits)

lemma map_filter_none: "list_all (\<lambda>x. f x = None) xs \<Longrightarrow> List.map_filter f xs = []"
  by (induction xs) simp_all

text \<open>
  Claim C9. For a positive \<open>count\<close>, \<open>fetch_uuids\<close> makes all \<open>count\<close> requests and
  returns, in request order, the identifiers of those that succeeded: a failed request
  adds nothing and stops nothing. The result has at most \<open>count\<close> identifiers, and it
  is the empty list, returned and not raised, when every request fails.
\<close>

theorem fetch_uuids_partial:
  assumes "0 < count"
  shows "fst (fetch_uuids e count st) =
           List.map_filter (fetched e) [http_calls st..<http_calls st + nat count] \<and>
         length (fst (fetch_uuids e count st)) \<le> nat count \<and>
         http_calls (snd (fetch_uuids e count st)) = http_calls st + nat count \<and>
         ((\<forall>i < nat count. \<exists>m. fetch_one (http_get e (http_calls st + i)) = Inl m) \<longrightarrow>
            fst (fetch_uuids e count st) = [])"
proof -
  let ?ns = "[http_calls st..<http_calls st + nat count]"
  have res: "fst (fetch_uuids e count st) = List.map_filter (fetched e) ?ns"
    by (rule fetch_uuids_result)
  have len: "length (fst (fetch_uuids e count st)) \<le> nat count"
    using map_filter_length[of "fetched e" ?ns] by (simp add: res)
  have calls: "http_calls (snd (fetch_uuids e count st)) = http_calls st + nat count"
    by (simp add: fetch_uuids_def fetch_loop_state)
  have none: "fst (fetch_uuids e count st) = []"
    if fail: "\<forall>i < nat count. \<exists>m. fetch_one (http_get e (http_calls st + i)) = Inl m"
  proof -
    have "fetched e j = None" if "j \<in> set ?ns" for j
    proof -
      from that obtain i where "j = http_calls st + i" and "i < nat count"
        by (auto simp: le_iff_add)
      with fail show ?thesis by (auto simp: fetched_def)
    qed
    then have "list_all (\<lambda>j. fetched e j = None) ?ns"
      by (simp add: list_all_iff)
    then show ?thesis by (simp add: res map_filter_none)
  qed
  from res len calls none show ?thesis by blast
qed

theorem fetch_uuids_partial_witness:
  "(0::int) < 3 \<and>
   fst (fetch_uuids env_flaky 3 initial) = [JStr (lit ''id-1''), JStr (lit ''id-2'')] \<and>
   http_calls (snd (fetch_uuids env_flaky 3 initial)) = 3 \<and>
   fst (fetch_uuids env_offline 3 initial) = []"
proof -
  have pos: "(0::int) < 3" by simp
  have ns: "[0..<3] = [0, 1, 2]" by (simp add: upt_rec)
  have flaky: "fst (fetch_uuids env_flaky 3 initial) = [JStr (lit ''id-1''), JStr (lit ''id-2'')]"
    using fetch_uuids_partial[OF pos, of env_flaky initial]
    by (simp add: initial_def ns fetched_def fetch_one_def env_flaky_def env_online_def lit_def)
  have calls: "http_calls (snd (fetch_uuids env_flaky 3 initial)) = 3"
    using fetch_uuids_partial[OF pos, of env_flaky initial] by (simp add: initial_def)
  have offline: "fst (fetch_uuids env_offline 3 initial) = []"
    using fetch_uuids_partial[OF pos, of env_offline initial]
    by (simp add: initial_def ns fetched_def fetch_one_def env_offline_def env_online_def)
  from pos flaky calls offline show ?thesis by blast
qed

lemma encodable_lit [simp]: "encodable (lit s)"
proof -
  have "\<not> surrogate (of_char c)" for c :: char
    using nat_of_char_less_256[of c] unfolding surrogate_def by arith
  then show ?thesis by (simp add: encodable_def lit_def list_all_iff)
qed

lemma lit_append: "lit (s @ t) = lit s @ lit t"
  by (simp add: lit_def)

lemma lit_eq_iff [simp]: "lit s = lit t \<longleftrightarrow> s = t"
  by (simp add: lit_def inj_map_eq_map[OF inj_of_char])

text \<open>
  Claim C2. \<open>analyze_with_ai\<close> returns a pair in every case: the pair the \<open>try\<close>
  produced, or, when the \<open>try\<close> raised with message \<open>m\<close>, the pair of
  \<open>Analysis unavailable: m\<close> and \<open>neutral\<close>. So it does with a missing API key, a
  failed API call, a reply that is not JSON, and a reply without the key \<open>analysis\<close>
  or \<open>sentiment\<close>.
\<close>

theorem analyze_with_ai_degrades:
  "(\<exists>a s st'. analyze_with_ai e txt st = ((a, s), st') \<and>
      (classify e txt st = (Inr (a, s), st') \<or>
       (\<exists>m. classify e txt st = (Inl m, st') \<and>
          a = JStr (lit ''Analysis unavailable: '' @ m) \<and> s = JStr (lit ''neutral'')))) \<and>
   (api_key e = None \<longrightarrow>
      fst (analyze_with_ai e txt st) =
        (JStr (lit ''Analysis unavailable: '' @ lit missing_api_key), JStr (lit ''neutral''))) \<and>
   (\<forall>key m. api_key e = Some key \<and>
      chat_create e (chat_calls st) (prompt e txt) = ApiError m \<longrightarrow>
      fst (analyze_with_ai e txt st) =
        (JStr (lit ''Analysis unavailable: '' @ m), JStr (lit ''neutral''))) \<and>
   (\<forall>key m rest. api_key e = Some key \<and>
      chat_create e (chat_calls st) (prompt e txt) = Choices (Some (Malformed m) # rest) \<longrightarrow>
      fst (analyze_with_ai e txt st) =
        (JStr (lit ''Analysis unavailable: '' @ lit m), JStr (lit ''neutral''))) \<and>
   (\<forall>key kvs rest. api_key e = Some key \<and>
      chat_create e (chat_calls st) (prompt e txt) =
        Choices (Some (Document (JObj kvs)) # rest) \<and>
      (map_of kvs (lit ''analysis'') = None \<or> map_of kvs (lit ''sentiment'') = None) \<longrightarrow>
      (\<exists>k. fst (analyze_with_ai e txt st) =
        (JStr (lit ''Analysis unavailable: '' @ lit (quoted k)), JStr (lit ''neutral'')) \<and>
        (k = ''analysis'' \<or> k = ''sentiment'') \<and> map_of kvs (lit k) = None))"
proof -
  have total: "\<exists>a s st'. analyze_with_ai e txt st = ((a, s), st') \<and>
      (classify e txt st = (Inr (a, s), st') \<or>
       (\<exists>m. classify e txt st = (Inl m, st') \<and>
          a = JStr (lit ''Analysis unavailable: '' @ m) \<and> s = JStr (lit ''neutral'')))"
  proof (cases "classify e txt st")
    case (Pair r st')
    then show ?thesis
      by (cases r) (auto simp: analyze_with_ai_def)
  qed
  have no_key: "fst (analyze_with_ai e txt st) =
        (JStr (lit ''Analysis unavailable: '' @ lit missing_api_key), JStr (lit ''neutral''))"
    if "api_key e = None"
    using that by (simp add: analyze_with_ai_def classify_def)
  have api: "fst (analyze_with_ai e txt st) =
        (JStr (lit ''Analysis unavailable: '' @ m), JStr (lit ''neutral''))"
    if "api_key e = Some key" "chat_create e (chat_calls st) (prompt e txt) = ApiError m"
    for key m
    using that by (simp add: analyze_with_ai_def classify_def)
  have malformed: "fst (analyze_with_ai e txt st) =
        (JStr (lit ''Analysis unavailable: '' @ lit m), JStr (lit ''neutral''))"
    if "api_key e = Some key"
      "chat_create e (chat_calls st) (prompt e txt) = Choices (Some (Malformed m) # rest)"
    for key m rest
    using that by (simp add: analyze_with_ai_def classify_def parse_reply_def)
  have missing: "\<exists>k. fst (analyze_with_ai e txt st) =
        (JStr (lit ''Analysis unavailable: '' @ lit (quoted k)), JStr (lit ''neutral'')) \<and>
        (k = ''analysis'' \<or> k = ''sentiment'') \<and> map_of kvs (lit k) = None"
    if "api_key e = Some key"
      "chat_create e (chat_calls st) (prompt e txt) = Choices (Some (Document (JObj kvs)) # rest)"
      "map_of kvs (lit ''analysis'') = None \<or> map_of kvs (lit ''sentiment'') = None"
    for key kvs rest
  proof (cases "map_of kvs (lit ''analysis'')")
    case None
    with that(1,2) show ?thesis
      by (intro exI[of _ "''analysis''"])
        (simp add: analyze_with_ai_def classify_def parse_reply_def)
  next
    case (Some a)
    with that have "map_of kvs (lit ''sentiment'') = None" by simp
    with that(1,2) Some show ?thesis
      by (intro exI[of _ "''sentiment''"])
        (simp add: analyze_with_ai_def classify_def parse_reply_def)
  qed
  from total no_key api malformed missing show ?thesis by blast
qed

theorem analyze_with_ai_degrades_witness:
  "fst (analyze_with_ai env_no_key (JStr (lit ''id-0'')) initial) =
     (JStr (lit ''Analysis unavailable: '' @ lit missing_api_key), JStr (lit ''neutral'')) \<and>
   fst (analyze_with_ai env_malformed (JStr (lit ''id-0'')) initial) =
     (JStr (lit ''Analysis unavailable: '' @ lit ''Expecting value: line 1 column 1 (char 0)''),
      JStr (lit ''neutral'')) \<and>
   fst (analyze_with_ai env_no_sentiment (JStr (lit ''id-0'')) initial) =
     (JStr (lit ''Analysis unavailable: '' @ lit (quoted ''sentiment'')), JStr (lit ''neutral''))"
proof -
  let ?id = "JStr (lit ''id-0'')"
  have key: "api_key env_no_key = None"
    by (simp add: env_no_key_def)
  have a: "fst (analyze_with_ai env_no_key ?id initial) =
     (JStr (lit ''Analysis unavailable: '' @ lit missing_api_key), JStr (lit ''neutral''))"
    using analyze_with_ai_degrades[of env_no_key ?id initial] key
    by simp
  have reply_b: "api_key env_malformed = Some (lit ''sk-test'') \<and>
      chat_create env_malformed (chat_calls initial) (prompt env_malformed ?id) =
        Choices (Some (Malformed ''Expecting value: line 1 column 1 (char 0)'') # [])"
    by (simp add: env_malformed_def env_online_def)
  have b: "fst (analyze_with_ai env_malformed ?id initial) =
     (JStr (lit ''Analysis unavailable: '' @ lit ''Expecting value: line 1 column 1 (char 0)''),
      JStr (lit ''neutral''))"
    using analyze_with_ai_degrades[of env_malformed ?id initial] reply_b
    by simp
  have reply_c: "api_key env_no_sentiment = Some (lit ''sk-test'') \<and>
      chat_create env_no_sentiment (chat_calls initial) (prompt env_no_sentiment ?id) =
        Choices (Some (Document (JObj [(lit ''analysis'', JStr (lit ''fine''))])) # []) \<and>
      map_of [(lit ''analysis'', JStr (lit ''fine''))] (lit ''sentiment'') = None \<and>
      map_of [(lit ''analysis'', JStr (lit ''fine''))] (lit ''analysis'') \<noteq> None"
    by (simp add: env_no_sentiment_def env_online_def lit_def)
  have c: "fst (analyze_with_ai env_no_sentiment ?id initial) =
     (JStr (lit ''Analysis unavailable: '' @ lit (quoted ''sentiment'')), JStr (lit ''neutral''))"
    using analyze_with_ai_degrades[of env_no_sentiment ?id initial] reply_c
    by auto
  from a b c show ?thesis by blast
qed

section \<open>Properties of Stage 2 and of the runs of the pipeline\<close>

lemma process_uuid_unfold:
  assumes "analyze_with_ai e uuid (emit (LogAnalyzing idx n) st) = ((a, s), st2)"
  shows "process_uuid e n idx uuid (results, errs, st) =
    (results @ [new_item e uuid a s st2],
     (if encodable (outside_text (LogSentiment s)) then errs
      else errs @ [lit ''Failed to process UUID '' @ py_str e uuid @ lit '': '' @
                   lit (codec_error e (outside_text (LogSentiment s)))]),
     (if encodable (outside_text (LogSentiment s))
      then emit (LogSentiment s) (st2\<lparr>clock_reads := Suc (clock_reads st2)\<rparr>)
      else emit (LogError (codec_error e (outside_text (LogSentiment s))))
             (st2\<lparr>clock_reads := Suc (clock_reads st2)\<rparr>)))"
  using assms by (simp add: new_item_def read_clock_def print_line_def)

declare process_uuid.simps [simp del]

lemma process_uuid_items:
  "\<exists>a s st1 st2 errs' st'.
     analyze_with_ai e uuid st1 = ((a, s), st2) \<and>
     process_uuid e n idx uuid (results, errs, st) =
       (results @ [new_item e uuid a s st2], errs', st')"
proof -
  obtain a s st2 where "analyze_with_ai e uuid (emit (LogAnalyzing idx n) st) = ((a, s), st2)"
    by (metis surj_pair)
  then show ?thesis
    using process_uuid_unfold by blast
qed

lemma stage2_items:
  assumes "list_all P results"
    and step: "\<And>uuid st1 a s st2. analyze_with_ai e uuid st1 = ((a, s), st2) \<Longrightarrow>
                 P (new_item e uuid a s st2)"
  shows "list_all P (fst (stage2 e n idx uuids (results, errs, st)))"
  using assms(1)
proof (induction uuids arbitrary: idx results errs st)
  case Nil
  then show ?case by simp
next
  case (Cons uuid rest)
  obtain a s st1 st2 errs' st' where
    an: "analyze_with_ai e uuid st1 = ((a, s), st2)" and
    pr: "process_uuid e n idx uuid (results, errs, st) =
       (results @ [new_item e uuid a s st2], errs', st')"
    using process_uuid_items by blast
  have "list_all P (results @ [new_item e uuid a s st2])"
    using Cons.prems step[OF an] by simp
  then show ?case
    using Cons.IH by (simp add: pr)
qed

lemma stage2_originals:
  "map original (fst (stage2 e n idx uuids (results, errs, st))) = map original results @ uuids"
proof (induction uuids arbitrary: idx results errs st)
  case Nil
  then show ?case by simp
next
  case (Cons uuid rest)
  obtain a s st1 st2 errs' st' where
    pr: "process_uuid e n idx uuid (results, errs, st) =
       (results @ [new_item e uuid a s st2], errs', st')"
    using process_uuid_items by blast
  show ?case
    by (simp add: pr Cons.IH new_item_def)
qed

lemma stage2_count:
  "length (fst (stage2 e n idx uuids ([], [], st))) = length uuids"
  using stage2_originals[of e n idx uuids "[]" "[]" st, THEN arg_cong, of length]
  by simp

lemma run_pipeline_abort:
  assumes "fst (fetch_uuids e 3 st) = []"
  shows "run_pipeline e addr st =
    (Inr \<lparr>items = [], notificationSent = False, processedAt = None,
          errors = [lit ''Failed to fetch any UUIDs'']\<rparr>,
     snd (fetch_uuids e 3 (emit LogStage1 (emit LogStarted st))))"
proof -
  obtain uuids st2 where f: "fetch_uuids e 3 (emit LogStage1 (emit LogStarted st)) = (uuids, st2)"
    by (cases "fetch_uuids e 3 (emit LogStage1 (emit LogStarted st))")
  have "uuids = fst (fetch_uuids e 3 st)"
    using f fetch_uuids_emit[of e 3 LogStage1 "emit LogStarted st"]
      fetch_uuids_emit[of e 3 LogStarted st] by simp
  with assms have "uuids = []" by simp
  with f show ?thesis by (simp add: run_pipeline_def)
qed

lemma run_pipeline_processed:
  assumes "fst (fetch_uuids e 3 st) \<noteq> []" and "fst (run_pipeline e addr st) = Inr r"
  shows "\<exists>now. processedAt r = Some now"
proof -
  obtain uuids st2 where f: "fetch_uuids e 3 (emit LogStage1 (emit LogStarted st)) = (uuids, st2)"
    by (cases "fetch_uuids e 3 (emit LogStage1 (emit LogStarted st))")
  have "uuids = fst (fetch_uuids e 3 st)"
    using f fetch_uuids_emit[of e 3 LogStage1 "emit LogStarted st"]
      fetch_uuids_emit[of e 3 LogStarted st] by simp
  with assms have ne: "uuids \<noteq> []" by simp
  from assms(2) f ne show ?thesis
    by (auto simp: run_pipeline_def Let_def read_clock_def split: prod.splits sum.splits)
qed

lemma three: "[0..<3] = [0, 1, 2]"
  by (simp add: upt_rec)

lemma offline_fetch: "fst (fetch_uuids env_offline 3 st) = []"
  by (simp add: fetch_uuids_result three fetched_def fetch_one_def env_offline_def
      env_online_def upt_rec)

lemmas run_defs = run_pipeline_def fetch_uuids_def fetch_one_def Let_def emit_def
  process_uuid.simps analyze_with_ai_def classify_def parse_reply_def read_clock_def
  print_line_def store_results_def load_existing_def write_file_def json_dumps_def
  send_notification_def three initial_def

lemma online_run:
  "map_sum id (\<lambda>r. (map original (items r), map sentiment (items r), map stored (items r),
       errors r, processedAt r, notificationSent r))
     (fst (run_pipeline env_online (lit ''a@b.com'') initial)) =
   Inr ([JStr (lit ''id-0''), JStr (lit ''id-1''), JStr (lit ''id-2'')],
        [JStr (lit ''balanced''), JStr (lit ''balanced''), JStr (lit ''balanced'')],
        [True, True, True], [], Some ''2024-01-01T00:00:03Z'', True)"
  by (simp add: run_pipeline_def fetch_uuids_def fetch_one_def Let_def emit_def
     process_uuid.simps analyze_with_ai_def classify_def parse_reply_def read_clock_def print_line_def
     store_results_def load_existing_def write_file_def json_dumps_def send_notification_def
     three env_online_def initial_def)

lemma readonly_run:
  "map_sum id (\<lambda>r. (map stored (items r), notificationSent r))
     (fst (run_pipeline env_readonly (lit ''a@b.com'') initial)) =
   Inr ([False, False, False], True)"
  by (simp add: run_defs env_readonly_def env_online_def)

lemma analyze_when_down:
  assumes "fst (classify e txt st) = Inl m"
  shows "analyze_with_ai e txt st =
    ((JStr (lit ''Analysis unavailable: '' @ m), JStr (lit ''neutral'')), snd (classify e txt st))"
  using assms by (cases "classify e txt st") (simp add: analyze_with_ai_def)

lemma stage2_when_down:
  assumes down: "\<forall>txt st1. \<exists>m. fst (classify e txt st1) = Inl m"
    and "list_all degraded results"
  shows "\<exists>results' st'. stage2 e n idx uuids (results, errs, st) = (results', errs, st') \<and>
           list_all degraded results' \<and> length results' = length results + length uuids"
  using assms(2)
proof (induction uuids arbitrary: idx results st)
  case Nil
  then show ?case by simp
next
  case (Cons uuid rest)
  let ?st1 = "emit (LogAnalyzing idx n) st"
  obtain m where m: "fst (classify e uuid ?st1) = Inl m"
    using down by blast
  let ?item = "new_item e uuid (JStr (lit ''Analysis unavailable: '' @ m)) (JStr (lit ''neutral''))
      (snd (classify e uuid ?st1))"
  obtain st3 where step: "process_uuid e n idx uuid (results, errs, st) =
      (results @ [?item], errs, st3)"
    using process_uuid_unfold[OF analyze_when_down[OF m]]
    by simp
  have "degraded ?item"
    by (simp add: degraded_def new_item_def)
  with Cons.prems have "list_all degraded (results @ [?item])"
    by simp
  from Cons.IH[OF this, of "idx + 1" st3] show ?case
    by (auto simp: step)
qed

lemma print_plain: "print_line e (LogNotified (lit s)) st = Inr (emit (LogNotified (lit s)) st)"
  by (simp add: print_line_def)

lemma notify_plain:
  "send_notification e (lit s) a b st = (True, emit (LogNotification (lit s) a b) st)"
  by (simp add: send_notification_def print_line_def)

lemma lone_surrogate: "\<not> encodable [55296]"
  by (simp add: encodable_def surrogate_def)

lemma analyze_sentiment_origin:
  assumes "analyze_with_ai e txt st = ((a, s), st')"
  shows "s = JStr (lit ''neutral'') \<or>
         (\<exists>k p parsed rest. chat_create e k p = Choices (Some (Document parsed) # rest) \<and>
            subscript parsed ''sentiment'' = Inr s)"
proof (cases "fst (classify e txt st)")
  case (Inl m)
  with assms show ?thesis
    by (cases "classify e txt st") (simp add: analyze_with_ai_def)
next
  case (Inr p)
  with assms have p: "p = (a, s)"
    by (cases "classify e txt st") (simp add: analyze_with_ai_def)
  let ?c = "chat_create e (chat_calls st) (prompt e txt)"
  from Inr p have rc: "read_completion ?c = Inr (a, s)"
    by (simp add: classify_def split: option.splits)
  then obtain t rest where c: "?c = Choices (Some t # rest)" and t: "parse_reply t = Inr (a, s)"
    by (cases ?c rule: read_completion.cases) (auto split: sum.splits)
  from t obtain parsed where "t = Document parsed" and "subscript parsed ''sentiment'' = Inr s"
    by (cases t) (auto simp: parse_reply_def split: sum.splits)
  with c show ?thesis by blast
qed

lemma run_pipeline_items:
  assumes "fst (run_pipeline e addr st) = Inr r"
  shows "items r = [] \<or>
         (\<exists>n uuids st3 b. items r = map (\<lambda>i. i\<lparr>stored := b\<rparr>) (fst (stage2 e n 1 uuids ([], [], st3))))"
  using assms
  by (auto simp: run_pipeline_def Let_def split: prod.splits sum.splits if_splits)
    (metis fst_conv)+

section \<open>The claims about the pipeline\<close>

text \<open>
  Claim C1. When \<open>fetch_uuids\<close> returns the empty list, \<open>run_pipeline\<close> returns the
  response with no items, \<open>notificationSent\<close> false, the one error
  \<open>Failed to fetch any UUIDs\<close> and no \<open>processedAt\<close>. When it returns identifiers,
  every response \<open>run_pipeline\<close> returns has a \<open>processedAt\<close>.
\<close>

theorem run_pipeline_abort_response:
  "(fst (fetch_uuids e 3 (emit LogStage1 (emit LogStarted st))) = [] \<longrightarrow>
      fst (run_pipeline e addr st) =
        Inr \<lparr>items = [], notificationSent = False, processedAt = None,
             errors = [lit ''Failed to fetch any UUIDs'']\<rparr>) \<and>
   (fst (fetch_uuids e 3 (emit LogStage1 (emit LogStarted st))) \<noteq> [] \<longrightarrow>
      (\<forall>r. fst (run_pipeline e addr st) = Inr r \<longrightarrow> (\<exists>now. processedAt r = Some now)))"
proof -
  have same: "fst (fetch_uuids e 3 (emit LogStage1 (emit LogStarted st))) = fst (fetch_uuids e 3 st)"
    by (simp add: fetch_uuids_emit)
  show ?thesis
    unfolding same using run_pipeline_abort[of e st addr] run_pipeline_processed[of e st addr]
    by auto
qed

theorem run_pipeline_abort_response_witness:
  "fst (fetch_uuids env_offline 3 (emit LogStage1 (emit LogStarted initial))) = [] \<and>
   fst (run_pipeline env_offline (lit ''a@b.com'') initial) =
     Inr \<lparr>items = [], notificationSent = False, processedAt = None,
          errors = [lit ''Failed to fetch any UUIDs'']\<rparr> \<and>
   fst (fetch_uuids env_online 3 (emit LogStage1 (emit LogStarted initial))) =
     [JStr (lit ''id-0''), JStr (lit ''id-1''), JStr (lit ''id-2'')] \<and>
   (\<exists>r now. fst (run_pipeline env_online (lit ''a@b.com'') initial) = Inr r \<and>
      processedAt r = Some now)"
proof -
  have off: "fst (fetch_uuids env_offline 3 (emit LogStage1 (emit LogStarted initial))) = []"
    by (rule offline_fetch)
  have on: "fst (fetch_uuids env_online 3 (emit LogStage1 (emit LogStarted initial))) =
     [JStr (lit ''id-0''), JStr (lit ''id-1''), JStr (lit ''id-2'')]"
    by (simp add: fetch_uuids_result three fetched_def fetch_one_def env_online_def
        initial_def lit_def)
  obtain r where r: "fst (run_pipeline env_online (lit ''a@b.com'') initial) = Inr r"
    using online_run by (cases "fst (run_pipeline env_online (lit ''a@b.com'') initial)") auto
  have a: "fst (run_pipeline env_offline (lit ''a@b.com'') initial) =
     Inr \<lparr>items = [], notificationSent = False, processedAt = None,
          errors = [lit ''Failed to fetch any UUIDs'']\<rparr>"
    using run_pipeline_abort_response[of env_offline initial "lit ''a@b.com''"] off by simp
  have b: "\<exists>now. processedAt r = Some now"
    using run_pipeline_abort_response[of env_online initial "lit ''a@b.com''"] on r by simp
  from off a on r b show ?thesis by blast
qed

text \<open>
  Claim C10. When \<open>fetch_uuids\<close> returns the empty list, the state \<open>run_pipeline\<close>
  leaves is the state \<open>fetch_uuids\<close> left: the store file is as it was, no classifier
  call and no clock reading was made, and the output holds the two banners and the
  errors of the requests, so neither a storage line nor the notification was printed.
\<close>

theorem run_pipeline_abort_frame:
  assumes "fst (fetch_uuids e 3 (emit LogStage1 (emit LogStarted st))) = []"
  shows "snd (run_pipeline e addr st) =
           snd (fetch_uuids e 3 (emit LogStage1 (emit LogStarted st))) \<and>
         store_file (snd (run_pipeline e addr st)) = store_file st \<and>
         chat_calls (snd (run_pipeline e addr st)) = chat_calls st \<and>
         clock_reads (snd (run_pipeline e addr st)) = clock_reads st \<and>
         (\<exists>ls. stdout (snd (run_pipeline e addr st)) =
                 stdout st @ [LogStarted, LogStage1] @ ls \<and>
               list_all (\<lambda>l. \<exists>i m. l = LogFetchError i m) ls)"
proof -
  let ?st1 = "emit LogStage1 (emit LogStarted st)"
  have "fst (fetch_uuids e 3 st) = []"
    using assms by (simp add: fetch_uuids_emit)
  then have final: "snd (run_pipeline e addr st) = snd (fetch_uuids e 3 ?st1)"
    by (simp add: run_pipeline_abort)
  obtain ls where ls: "stdout (snd (fetch_uuids e 3 ?st1)) = stdout ?st1 @ ls"
      "list_all (\<lambda>l. \<exists>i m. l = LogFetchError i m) ls"
    unfolding fetch_uuids_def using fetch_loop_stdout by blast
  have fields: "store_file (snd (fetch_uuids e 3 ?st1)) = store_file st"
      "chat_calls (snd (fetch_uuids e 3 ?st1)) = chat_calls st"
      "clock_reads (snd (fetch_uuids e 3 ?st1)) = clock_reads st"
    by (simp_all add: fetch_uuids_def fetch_loop_state)
  have out: "stdout (snd (run_pipeline e addr st)) = stdout st @ [LogStarted, LogStage1] @ ls"
    by (simp add: final ls)
  from final fields out ls(2) show ?thesis by auto
qed

theorem run_pipeline_abort_frame_witness:
  "fst (fetch_uuids env_offline 3 (emit LogStage1 (emit LogStarted with_store))) = [] \<and>
   store_file (snd (run_pipeline env_offline (lit ''a@b.com'') with_store)) =
     Some (Document (JArr [result_json old_record])) \<and>
   stdout (snd (run_pipeline env_offline (lit ''a@b.com'') with_store)) =
     [LogStarted, LogStage1, LogFetchError 1 ''timed out'', LogFetchError 2 ''timed out'',
      LogFetchError 3 ''timed out'']"
proof -
  let ?st1 = "emit LogStage1 (emit LogStarted with_store)"
  have off: "fst (fetch_uuids env_offline 3 ?st1) = []"
    by (rule offline_fetch)
  have out: "stdout (snd (fetch_uuids env_offline 3 ?st1)) =
     [LogStarted, LogStage1, LogFetchError 1 ''timed out'', LogFetchError 2 ''timed out'',
      LogFetchError 3 ''timed out'']"
    by (simp add: fetch_uuids_def three fetch_one_def env_offline_def env_online_def
        with_store_def initial_def Let_def emit_def)
  note frame = run_pipeline_abort_frame[OF off, of "lit ''a@b.com''"]
  from frame have final: "snd (run_pipeline env_offline (lit ''a@b.com'') with_store) =
      snd (fetch_uuids env_offline 3 ?st1)"
    by blast
  from frame have "store_file (snd (run_pipeline env_offline (lit ''a@b.com'') with_store)) =
      store_file with_store"
    by blast
  then have kept: "store_file (snd (run_pipeline env_offline (lit ''a@b.com'') with_store)) =
      Some (Document (JArr [result_json old_record]))"
    by (simp add: with_store_def)
  from final out have lines: "stdout (snd (run_pipeline env_offline (lit ''a@b.com'') with_store)) =
     [LogStarted, LogStage1, LogFetchError 1 ''timed out'', LogFetchError 2 ''timed out'',
      LogFetchError 3 ''timed out'']"
    by simp
  from off kept lines show ?thesis by blast
qed

lemma run_pipeline_returns:
  assumes "encodable addr"
  shows "\<exists>r. fst (run_pipeline e addr st) = Inr r"
  using assms
  by (auto simp: run_pipeline_def Let_def print_line_def read_clock_def split: prod.splits)

lemma online_response:
  "fst (run_pipeline env_online (lit ''a@b.com'') initial) =
     Inr \<lparr>items =
            [\<lparr>original = JStr (lit ''id-0''), analysis = JStr (lit ''A random identifier.''),
              sentiment = JStr (lit ''balanced''), stored = True,
              timestamp = ''2024-01-01T00:00:00Z''\<rparr>,
             \<lparr>original = JStr (lit ''id-1''), analysis = JStr (lit ''A random identifier.''),
              sentiment = JStr (lit ''balanced''), stored = True,
              timestamp = ''2024-01-01T00:00:01Z''\<rparr>,
             \<lparr>original = JStr (lit ''id-2''), analysis = JStr (lit ''A random identifier.''),
              sentiment = JStr (lit ''balanced''), stored = True,
              timestamp = ''2024-01-01T00:00:02Z''\<rparr>],
          notificationSent = True, processedAt = Some ''2024-01-01T00:00:03Z'',
          errors = []\<rparr>"
  by (simp add: run_defs env_online_def)

text \<open>
  Claim C4, as stated, fails on its second half: a request with the source
  \<open>HTTPBin UUID\<close> is not always answered with status 200. With an email that holds a
  lone surrogate, \<open>send_notification\<close> catches the failure of its \<open>print\<close>, but the
  \<open>print\<close> of line 148 is in no \<open>try\<close>: the handler raises and the answer is 500. With
  the email \<open>a@b.com\<close> and a classifier that answers NaN as the analysis, the handler
  returns a dict whose three items hold NaN, the rendering raises, and the answer is 500.
\<close>

theorem pipeline_endpoint_answers_500_counterexample:
  "source \<lparr>email = [55296], source = lit ''HTTPBin UUID''\<rparr> = lit ''HTTPBin UUID'' \<and>
   fst (pipeline_endpoint env_online
          \<lparr>email = [55296], source = lit ''HTTPBin UUID''\<rparr> initial) =
     Unhandled (codec_error env_online [55296]) \<and>
   status_code (fst (pipeline_endpoint env_online
          \<lparr>email = [55296], source = lit ''HTTPBin UUID''\<rparr> initial)) = 500 \<and>
   map_sum id (map analysis \<circ> items)
     (fst (run_pipeline env_nan (lit ''a@b.com'') initial)) =
     Inr [JFloat ''nan'', JFloat ''nan'', JFloat ''nan''] \<and>
   status_code (fst (pipeline_endpoint env_nan
          \<lparr>email = lit ''a@b.com'', source = lit ''HTTPBin UUID''\<rparr> initial)) = 500"
  by (simp add: pipeline_endpoint_def run_defs env_online_def env_nan_def lone_surrogate
      response_json_def result_json_def finite_repr_def)

text \<open>
  Claim C4, amended. A request whose \<open>source\<close> is not exactly \<open>HTTPBin UUID\<close> is
  answered with status 400 and the detail \<open>Source must be 'HTTPBin UUID'\<close>, whatever its
  \<open>email\<close>, and the state is untouched. With that exact \<open>source\<close> the handler runs
  \<open>run_pipeline\<close> on the \<open>email\<close>; \<open>run_pipeline\<close> returns a response when the email
  holds no lone surrogate; and a response it returns is the body of the answer, with
  status 200 when the body renders as JSON.
\<close>

theorem pipeline_endpoint_source_gate:
  "(source req \<noteq> lit ''HTTPBin UUID'' \<longrightarrow>
      pipeline_endpoint e req st =
        (HTTPException 400 (''Source must be '' @ quoted ''HTTPBin UUID''), st) \<and>
      status_code (fst (pipeline_endpoint e req st)) = 400) \<and>
   (source req = lit ''HTTPBin UUID'' \<longrightarrow>
      snd (pipeline_endpoint e req st) = snd (run_pipeline e (email req) st) \<and>
      (encodable (email req) \<longrightarrow> (\<exists>r. fst (run_pipeline e (email req) st) = Inr r)) \<and>
      (\<forall>r. fst (run_pipeline e (email req) st) = Inr r \<longrightarrow>
         fst (pipeline_endpoint e req st) = Returned r \<and>
         (renders (response_json r) \<longrightarrow>
            status_code (fst (pipeline_endpoint e req st)) = 200)))"
proof -
  have refused: "pipeline_endpoint e req st =
        (HTTPException 400 (''Source must be '' @ quoted ''HTTPBin UUID''), st) \<and>
      status_code (fst (pipeline_endpoint e req st)) = 400"
    if "source req \<noteq> lit ''HTTPBin UUID''"
    using that by (simp add: pipeline_endpoint_def)
  have effect: "snd (pipeline_endpoint e req st) = snd (run_pipeline e (email req) st)"
    if "source req = lit ''HTTPBin UUID''"
    using that
    by (cases "run_pipeline e (email req) st"; cases "fst (run_pipeline e (email req) st)")
      (auto simp: pipeline_endpoint_def)
  have returns: "\<exists>r. fst (run_pipeline e (email req) st) = Inr r"
    if "encodable (email req)"
    using that by (rule run_pipeline_returns)
  have body: "fst (pipeline_endpoint e req st) = Returned r \<and>
         (renders (response_json r) \<longrightarrow>
            status_code (fst (pipeline_endpoint e req st)) = 200)"
    if "source req = lit ''HTTPBin UUID''" and "fst (run_pipeline e (email req) st) = Inr r"
    for r
    using that
    by (cases "run_pipeline e (email req) st") (auto simp: pipeline_endpoint_def)
  from refused effect returns body show ?thesis by blast
qed

theorem pipeline_endpoint_source_gate_witness:
  "fst (pipeline_endpoint env_online \<lparr>email = lit ''a@b.com'', source = lit ''httpbin uuid''\<rparr> initial) =
     HTTPException 400 (''Source must be '' @ quoted ''HTTPBin UUID'') \<and>
   pipeline_endpoint env_online \<lparr>email = lit '''', source = lit ''HTTPBin UUID ''\<rparr> initial =
     (HTTPException 400 (''Source must be '' @ quoted ''HTTPBin UUID''), initial) \<and>
   encodable (lit ''a@b.com'') \<and>
   (\<exists>r. fst (pipeline_endpoint env_online
            \<lparr>email = lit ''a@b.com'', source = lit ''HTTPBin UUID''\<rparr> initial) = Returned r \<and>
        map original (items r) = [JStr (lit ''id-0''), JStr (lit ''id-1''), JStr (lit ''id-2'')] \<and>
        renders (response_json r)) \<and>
   status_code (fst (pipeline_endpoint env_online
     \<lparr>email = lit ''a@b.com'', source = lit ''HTTPBin UUID''\<rparr> initial)) = 200 \<and>
   fst (pipeline_endpoint env_offline \<lparr>email = lit ''a@b.com'', source = lit ''HTTPBin UUID''\<rparr> initial) =
     Returned \<lparr>items = [], notificationSent = False, processedAt = None,
               errors = [lit ''Failed to fetch any UUIDs'']\<rparr> \<and>
   status_code (fst (pipeline_endpoint env_offline
     \<lparr>email = lit ''a@b.com'', source = lit ''HTTPBin UUID''\<rparr> initial)) = 200"
proof -
  let ?lower = "\<lparr>email = lit ''a@b.com'', source = lit ''httpbin uuid''\<rparr>"
  let ?space = "\<lparr>email = lit '''', source = lit ''HTTPBin UUID ''\<rparr>"
  let ?exact = "\<lparr>email = lit ''a@b.com'', source = lit ''HTTPBin UUID''\<rparr>"
  let ?abort = "\<lparr>items = [], notificationSent = False, processedAt = None,
      errors = [lit ''Failed to fetch any UUIDs'']\<rparr>"
  have lower: "source ?lower \<noteq> lit ''HTTPBin UUID''"
    by (simp add: lit_def)
  have space: "source ?space \<noteq> lit ''HTTPBin UUID''"
    by (simp add: lit_def)
  have exact: "source ?exact = lit ''HTTPBin UUID''"
    by simp
  have plain: "encodable (lit ''a@b.com'')"
    by simp
  have a: "fst (pipeline_endpoint env_online ?lower initial) =
     HTTPException 400 (''Source must be '' @ quoted ''HTTPBin UUID'')"
    using pipeline_endpoint_source_gate[of ?lower env_online initial] lower by simp
  have b: "pipeline_endpoint env_online ?space initial =
     (HTTPException 400 (''Source must be '' @ quoted ''HTTPBin UUID''), initial)"
    using pipeline_endpoint_source_gate[of ?space env_online initial] space by simp
  obtain r where r: "fst (run_pipeline env_online (email ?exact) initial) = Inr r"
    using pipeline_endpoint_source_gate[of ?exact env_online initial] exact plain by auto
  have ids: "map original (items r) = [JStr (lit ''id-0''), JStr (lit ''id-1''), JStr (lit ''id-2'')]"
    using r online_response by auto
  have ok: "renders (response_json r)"
    using r online_response by (auto simp: response_json_def result_json_def)
  have c: "fst (pipeline_endpoint env_online ?exact initial) = Returned r \<and>
     status_code (fst (pipeline_endpoint env_online ?exact initial)) = 200"
    using pipeline_endpoint_source_gate[of ?exact env_online initial] exact r ok by blast
  have run: "fst (run_pipeline env_offline (email ?exact) initial) = Inr ?abort"
    by (simp add: run_pipeline_abort offline_fetch)
  have plain_abort: "renders (response_json ?abort)"
    by (simp add: response_json_def)
  have d: "fst (pipeline_endpoint env_offline ?exact initial) = Returned ?abort \<and>
     status_code (fst (pipeline_endpoint env_offline ?exact initial)) = 200"
    using pipeline_endpoint_source_gate[of ?exact env_offline initial] exact run plain_abort
    by blast
  from c ids ok have online: "\<exists>r. fst (pipeline_endpoint env_online ?exact initial) = Returned r \<and>
        map original (items r) = [JStr (lit ''id-0''), JStr (lit ''id-1''), JStr (lit ''id-2'')] \<and>
        renders (response_json r)"
    by (intro exI[of _ r] conjI) simp_all
  from c have online_status: "status_code (fst (pipeline_endpoint env_online ?exact initial)) = 200"
    by (rule conjunct2)
  from d have abort_body: "fst (pipeline_endpoint env_offline ?exact initial) = Returned ?abort"
    by (rule conjunct1)
  from d have abort_status: "status_code (fst (pipeline_endpoint env_offline ?exact initial)) = 200"
    by (rule conjunct2)
  show ?thesis
    by (intro conjI a b plain online online_status abort_body abort_status)
qed

text \<open>
  Claim C5. When \<open>store_results\<close> returns \<open>True\<close>, the store file parsed as a list
  before (or did not exist: the empty list), and it now parses as that list followed by
  \<open>results\<close>: the first records are the prior ones, unchanged, and the rest are the
  appended ones in their order.
\<close>

theorem store_results_appends:
  assumes "store_results e results st = (True, st')"
  shows "\<exists>prior after.
           (case store_file st of
              None \<Rightarrow> prior = []
            | Some t \<Rightarrow> json_loads t = Inr (JArr prior)) \<and>
           (case store_file st' of
              None \<Rightarrow> False
            | Some t \<Rightarrow> json_loads t = Inr (JArr after)) \<and>
           after = prior @ results \<and>
           take (length prior) after = prior \<and>
           drop (length prior) after = results"
proof (cases "load_existing e st")
  case (Inl m)
  with assms show ?thesis by (simp add: store_results_def)
next
  case (Inr existing_data)
  show ?thesis
  proof (cases existing_data)
    case (JArr prior)
    have before: "case store_file st of None \<Rightarrow> prior = [] | Some t \<Rightarrow> json_loads t = Inr (JArr prior)"
      using Inr JArr by (auto simp: load_existing_def split: option.splits)
    have "store_file st' = Some (json_dumps (JArr (prior @ results)))"
      using assms Inr JArr
      by (auto simp: store_results_def write_file_def split: option.splits prod.splits)
    then have after: "case store_file st' of None \<Rightarrow> False
        | Some t \<Rightarrow> json_loads t = Inr (JArr (prior @ results))"
      by (simp add: json_dumps_def)
    from before after show ?thesis by auto
  qed (use assms Inr in \<open>simp_all add: store_results_def\<close>)
qed

theorem store_results_appends_witness:
  "store_results env_online [result_json new_record] with_store =
     (True, with_store\<lparr>store_file :=
        Some (Document (JArr [result_json old_record, result_json new_record]))\<rparr>) \<and>
   (\<exists>prior after.
      json_loads (Document (JArr [result_json old_record])) = Inr (JArr prior) \<and>
      json_loads (Document (JArr [result_json old_record, result_json new_record])) =
        Inr (JArr after) \<and>
      after = prior @ [result_json new_record] \<and>
      take (length prior) after = prior \<and>
      drop (length prior) after = [result_json new_record])"
proof -
  let ?st' = "with_store\<lparr>store_file :=
        Some (Document (JArr [result_json old_record, result_json new_record]))\<rparr>"
  have run: "store_results env_online [result_json new_record] with_store = (True, ?st')"
    by (simp add: store_results_def load_existing_def write_file_def json_dumps_def
        env_online_def with_store_def initial_def)
  show ?thesis
    using store_results_appends[OF run] run by (simp add: with_store_def)
qed

text \<open>
  Claim C6. On a run that fetched identifiers and returned a response, the items of the
  response are the results of Stage 2 with \<open>stored\<close> set to the one boolean
  \<open>store_results\<close> returned for the batch: all items have that same value.
\<close>

theorem run_pipeline_stored_flag:
  assumes "run_pipeline e addr st = (Inr r, st')"
    and "fst (fetch_uuids e 3 (emit LogStage1 (emit LogStarted st))) \<noteq> []"
  shows "\<exists>uuids st2 results errs st4 b st6.
     fetch_uuids e 3 (emit LogStage1 (emit LogStarted st)) = (uuids, st2) \<and>
     stage2 e (length uuids) 1 uuids
       ([], [], emit LogStage2 (emit (LogFetched (length uuids)) st2)) = (results, errs, st4) \<and>
     store_results e (map result_json results)
       (emit LogStage3 (emit (LogAnalyzed (length results)) st4)) = (b, st6) \<and>
     items r = map (\<lambda>i. i\<lparr>stored := b\<rparr>) results \<and>
     list_all (\<lambda>i. stored i = b) (items r)"
proof -
  obtain uuids st2 where f: "fetch_uuids e 3 (emit LogStage1 (emit LogStarted st)) = (uuids, st2)"
    by (metis surj_pair)
  obtain results errs st4 where s2: "stage2 e (length uuids) 1 uuids
       ([], [], emit LogStage2 (emit (LogFetched (length uuids)) st2)) = (results, errs, st4)"
    by (metis surj_pair)
  obtain b st6 where s3: "store_results e (map result_json results)
       (emit LogStage3 (emit (LogAnalyzed (length results)) st4)) = (b, st6)"
    by (metis surj_pair)
  from assms(2) f have ne: "uuids \<noteq> []" by simp
  have it: "items r = map (\<lambda>i. i\<lparr>stored := b\<rparr>) results"
    using assms(1) f s2 s3 ne
    by (auto simp: run_pipeline_def Let_def split: prod.splits sum.splits)
  then have "list_all (\<lambda>i. stored i = b) (items r)"
    by (simp add: list_all_iff)
  with f s2 s3 it show ?thesis by blast
qed

theorem run_pipeline_stored_flag_witness:
  "(\<exists>r. fst (run_pipeline env_online (lit ''a@b.com'') initial) = Inr r \<and>
      map stored (items r) = [True, True, True] \<and>
      (\<exists>b. list_all (\<lambda>i. stored i = b) (items r))) \<and>
   (\<exists>r. fst (run_pipeline env_readonly (lit ''a@b.com'') initial) = Inr r \<and>
      map stored (items r) = [False, False, False] \<and>
      (\<exists>b. list_all (\<lambda>i. stored i = b) (items r)))"
proof -
  have ne: "fst (fetch_uuids env_online 3 (emit LogStage1 (emit LogStarted initial))) \<noteq> []"
    by (simp add: fetch_uuids_result three fetched_def fetch_one_def env_online_def initial_def)
  have ne': "fst (fetch_uuids env_readonly 3 (emit LogStage1 (emit LogStarted initial))) \<noteq> []"
    by (simp add: fetch_uuids_result three fetched_def fetch_one_def env_online_def
        env_readonly_def initial_def)
  obtain r st' where r: "run_pipeline env_online (lit ''a@b.com'') initial = (Inr r, st')"
    using online_run
    by (cases "run_pipeline env_online (lit ''a@b.com'') initial";
        cases "fst (run_pipeline env_online (lit ''a@b.com'') initial)") auto
  have flags: "map stored (items r) = [True, True, True]"
    using online_run r by simp
  obtain q st'' where q: "run_pipeline env_readonly (lit ''a@b.com'') initial = (Inr q, st'')"
    using readonly_run
    by (cases "run_pipeline env_readonly (lit ''a@b.com'') initial";
        cases "fst (run_pipeline env_readonly (lit ''a@b.com'') initial)") auto
  have flags': "map stored (items q) = [False, False, False]"
    using readonly_run q by simp
  have a: "\<exists>b. list_all (\<lambda>i. stored i = b) (items r)"
    using run_pipeline_stored_flag[OF r ne] by blast
  have b: "\<exists>b. list_all (\<lambda>i. stored i = b) (items q)"
    using run_pipeline_stored_flag[OF q ne'] by blast
  from r flags a q flags' b show ?thesis by auto
qed

text \<open>
  Claim C7. The request \<open>{"email": "a@b.com", "source": "HTTPBin UUID"}\<close>, in a world
  where the fetch returns three identifiers and the \<open>try\<close> of \<open>analyze_with_ai\<close>
  raises at every call: the handler returns a response with three items, each degraded,
  all with the same \<open>stored\<close>, with no errors and \<open>notificationSent\<close> true.
\<close>

theorem classifier_down_scenario:
  assumes three_ids: "length (fst (fetch_uuids e 3 (emit LogStage1 (emit LogStarted st)))) = 3"
    and down: "\<forall>txt st1. \<exists>m. fst (classify e txt st1) = Inl m"
  shows "\<exists>r st'.
     pipeline_endpoint e \<lparr>email = lit ''a@b.com'', source = lit ''HTTPBin UUID''\<rparr> st =
       (Returned r, st') \<and>
     length (items r) = 3 \<and>
     list_all degraded (items r) \<and>
     (\<exists>b. list_all (\<lambda>i. stored i = b) (items r)) \<and>
     errors r = [] \<and>
     notificationSent r = True"
proof -
  obtain uuids st2 where f: "fetch_uuids e 3 (emit LogStage1 (emit LogStarted st)) = (uuids, st2)"
    by (metis surj_pair)
  with three_ids have len: "length uuids = 3" by simp
  then have ne: "uuids \<noteq> []" by auto
  obtain results st4 where s2: "stage2 e (length uuids) 1 uuids
       ([], [], emit LogStage2 (emit (LogFetched (length uuids)) st2)) = (results, [], st4)"
    and deg: "list_all degraded results" and n: "length results = length uuids"
    using stage2_when_down[OF down, of "[]" "length uuids" 1 uuids "[]"
        "emit LogStage2 (emit (LogFetched (length uuids)) st2)"]
    by auto
  obtain b st6 where s3: "store_results e (map result_json results)
       (emit LogStage3 (emit (LogAnalyzed (length results)) st4)) = (b, st6)"
    by (metis surj_pair)
  let ?items = "map (\<lambda>i. i\<lparr>stored := b\<rparr>) results"
  obtain now st' where run: "run_pipeline e (lit ''a@b.com'') st =
      (Inr \<lparr>items = ?items, notificationSent = True, processedAt = Some now, errors = []\<rparr>, st')"
    using f ne s2 s3
    by (simp add: run_pipeline_def Let_def notify_plain print_plain read_clock_def)
  have "list_all degraded ?items"
    using deg by (simp add: list_all_iff degraded_def)
  moreover have "list_all (\<lambda>i. stored i = b) ?items"
    by (simp add: list_all_iff)
  moreover have "length ?items = 3"
    using n len by simp
  ultimately show ?thesis
    using run by (auto simp: pipeline_endpoint_def)
qed

theorem classifier_down_scenario_witness:
  "length (fst (fetch_uuids env_no_key 3 (emit LogStage1 (emit LogStarted initial)))) = 3 \<and>
   (\<forall>txt st1. \<exists>m. fst (classify env_no_key txt st1) = Inl m) \<and>
   (\<exists>r st'.
     pipeline_endpoint env_no_key \<lparr>email = lit ''a@b.com'', source = lit ''HTTPBin UUID''\<rparr>
       initial = (Returned r, st') \<and>
     length (items r) = 3 \<and>
     list_all degraded (items r) \<and>
     (\<exists>b. list_all (\<lambda>i. stored i = b) (items r)) \<and>
     errors r = [] \<and>
     notificationSent r = True)"
proof -
  have ids: "length (fst (fetch_uuids env_no_key 3 (emit LogStage1 (emit LogStarted initial)))) = 3"
    by (simp add: fetch_uuids_result three fetched_def fetch_one_def env_no_key_def
        env_online_def initial_def)
  have down: "\<forall>txt st1. \<exists>m. fst (classify env_no_key txt st1) = Inl m"
    by (simp add: classify_def env_no_key_def)
  from classifier_down_scenario[OF ids down] ids down show ?thesis
    by blast
qed

text \<open>
  Claim C8, as stated, fails: the sentiment of an item is whatever the reply holds under
  the key \<open>sentiment\<close>. With a classifier that answers \<open>happy\<close>, the three items
  carry \<open>happy\<close>, which is none of the four strings.
\<close>

theorem sentiment_unchecked_counterexample:
  "map_sum id (map sentiment \<circ> items) (fst (run_pipeline env_happy (lit ''a@b.com'') initial)) =
     Inr [JStr (lit ''happy''), JStr (lit ''happy''), JStr (lit ''happy'')] \<and>
   JStr (lit ''happy'') \<notin>
     {JStr (lit ''optimistic''), JStr (lit ''pessimistic''), JStr (lit ''balanced''),
      JStr (lit ''neutral'')}"
  by (simp add: run_defs env_happy_def env_online_def)

text \<open>
  Claim C8, amended. The sentiment of every item of a response is \<open>neutral\<close>, or it
  is the value some reply of the classifier holds under the key \<open>sentiment\<close>; it is
  one of the four strings whenever every such value is.
\<close>

theorem sentiment_origin:
  assumes "fst (run_pipeline e addr st) = Inr r"
  shows "list_all (\<lambda>i. sentiment i = JStr (lit ''neutral'') \<or>
             (\<exists>k p parsed rest. chat_create e k p = Choices (Some (Document parsed) # rest) \<and>
                subscript parsed ''sentiment'' = Inr (sentiment i)))
           (items r) \<and>
         ((\<forall>k p parsed rest v.
             chat_create e k p = Choices (Some (Document parsed) # rest) \<and>
             subscript parsed ''sentiment'' = Inr v \<longrightarrow>
             v \<in> {JStr (lit ''optimistic''), JStr (lit ''pessimistic''),
                  JStr (lit ''balanced''), JStr (lit ''neutral'')}) \<longrightarrow>
          list_all (\<lambda>i. sentiment i \<in> {JStr (lit ''optimistic''), JStr (lit ''pessimistic''),
                  JStr (lit ''balanced''), JStr (lit ''neutral'')}) (items r))"
proof -
  let ?P = "\<lambda>i. sentiment i = JStr (lit ''neutral'') \<or>
             (\<exists>k p parsed rest. chat_create e k p = Choices (Some (Document parsed) # rest) \<and>
                subscript parsed ''sentiment'' = Inr (sentiment i))"
  have stage: "list_all ?P (fst (stage2 e n idx uuids ([], [], st3)))" for n idx uuids st3
  proof (rule stage2_items)
    show "list_all ?P []" by simp
  next
    fix uuid st1 a s st2
    assume "analyze_with_ai e uuid st1 = ((a, s), st2)"
    from analyze_sentiment_origin[OF this] show "?P (new_item e uuid a s st2)"
      by (simp add: new_item_def)
  qed
  have origin: "list_all ?P (items r)"
  proof -
    from run_pipeline_items[OF assms] consider "items r = []"
      | n uuids st3 b where
          "items r = map (\<lambda>i. i\<lparr>stored := b\<rparr>) (fst (stage2 e n 1 uuids ([], [], st3)))"
      by blast
    then show ?thesis
    proof cases
      case 1
      then show ?thesis by simp
    next
      case 2
      with stage[of n 1 uuids st3] show ?thesis
        by (simp add: list_all_iff)
    qed
  qed
  have checked: "list_all (\<lambda>i. sentiment i \<in> {JStr (lit ''optimistic''), JStr (lit ''pessimistic''),
                  JStr (lit ''balanced''), JStr (lit ''neutral'')}) (items r)"
    if well: "\<forall>k p parsed rest v.
             chat_create e k p = Choices (Some (Document parsed) # rest) \<and>
             subscript parsed ''sentiment'' = Inr v \<longrightarrow>
             v \<in> {JStr (lit ''optimistic''), JStr (lit ''pessimistic''),
                  JStr (lit ''balanced''), JStr (lit ''neutral'')}"
  proof -
    have "sentiment i \<in> {JStr (lit ''optimistic''), JStr (lit ''pessimistic''),
                  JStr (lit ''balanced''), JStr (lit ''neutral'')}"
      if "i \<in> set (items r)" for i
    proof -
      from origin that have "?P i" by (simp add: list_all_iff)
      then show ?thesis
      proof
        assume "sentiment i = JStr (lit ''neutral'')"
        then show ?thesis by simp
      next
        assume "\<exists>k p parsed rest. chat_create e k p = Choices (Some (Document parsed) # rest) \<and>
                subscript parsed ''sentiment'' = Inr (sentiment i)"
        with well show ?thesis by blast
      qed
    qed
    then show ?thesis by (simp add: list_all_iff)
  qed
  from origin checked show ?thesis by blast
qed

theorem sentiment_origin_witness:
  "\<exists>r. fst (run_pipeline env_online (lit ''a@b.com'') initial) = Inr r \<and>
     map sentiment (items r) =
       [JStr (lit ''balanced''), JStr (lit ''balanced''), JStr (lit ''balanced'')] \<and>
     list_all (\<lambda>i. sentiment i \<in> {JStr (lit ''optimistic''), JStr (lit ''pessimistic''),
                  JStr (lit ''balanced''), JStr (lit ''neutral'')}) (items r)"
proof -
  obtain r where r: "fst (run_pipeline env_online (lit ''a@b.com'') initial) = Inr r"
    using online_run by (cases "fst (run_pipeline env_online (lit ''a@b.com'') initial)") auto
  have same: "map sentiment (items r) =
       [JStr (lit ''balanced''), JStr (lit ''balanced''), JStr (lit ''balanced'')]"
    using online_run r by simp
  have replies: "\<forall>k p parsed rest v.
             chat_create env_online k p = Choices (Some (Document parsed) # rest) \<and>
             subscript parsed ''sentiment'' = Inr v \<longrightarrow>
             v \<in> {JStr (lit ''optimistic''), JStr (lit ''pessimistic''),
                  JStr (lit ''balanced''), JStr (lit ''neutral'')}"
    by (auto simp: env_online_def)
  from sentiment_origin[OF r] replies
  have "list_all (\<lambda>i. sentiment i \<in> {JStr (lit ''optimistic''), JStr (lit ''pessimistic''),
                  JStr (lit ''balanced''), JStr (lit ''neutral'')}) (items r)"
    by blast
  then show ?thesis
    by (intro exI[of _ r] conjI r same)
qed

text \<open>
  Claim C3, at the input where the code departs from it: the identifier \<open>id-0\<close> gets a
  reply whose sentiment is a lone surrogate. Line 129 appends its item, the \<open>print\<close> of
  line 130 raises, and the handler appends the error for \<open>id-0\<close> as well: three
  identifiers give three items and one error.
\<close>

theorem stage2_item_and_error:
  "map_sum id (map original \<circ> items)
     (fst (run_pipeline env_surrogate (lit ''a@b.com'') initial)) =
     Inr [JStr (lit ''id-0''), JStr (lit ''id-1''), JStr (lit ''id-2'')] \<and>
   map_sum id errors (fst (run_pipeline env_surrogate (lit ''a@b.com'') initial)) =
     Inr [lit ''Failed to process UUID '' @ lit ''id-0'' @ lit '': '' @
          lit (codec_error env_surrogate [55296])]"
  by (simp add: run_defs env_surrogate_def env_online_def py_str_def lone_surrogate)

end
